theory Spec2Isabelle
  imports Complex_Main "HOL-Library.Word"
begin

section \<open>The trace agent: data model\<close>

text \<open>
  This theory embeds the Go functions of package \<open>agent\<close> that drive one payload through
  the trace agent: \<open>Agent.Process\<close>, \<open>Agent.ProcessStats\<close>, \<open>Agent.sample\<close>,
  \<open>Agent.runSamplers\<close>, \<open>Agent.samplePriorityTrace\<close>, \<open>Agent.sampleNoPriorityTrace\<close> and
  \<open>traceContainsError\<close>.

  Go's fixed-width integers are words: \<open>+\<close> wraps, \<open><s\<close> is the signed comparison.
  Go's \<open>int\<close> is taken at its 64-bit width.
\<close>

type_synonym int32 = "32 word"
type_synonym int64 = "64 word"
type_synonym uint32 = "32 word"
type_synonym uint64 = "64 word"
type_synonym go_int = "64 word"

text \<open>
  A \<open>*pb.Span\<close> is an address into a store of spans; a \<open>pb.Trace\<close> is a slice of such
  pointers. The root of a trace, the spans of a subtrace and the extracted events are all
  pointers to the same spans, so a change made through one of them is seen through the others.
\<close>

type_synonym ptr = nat
type_synonym Trace = "ptr list"

text \<open>
  Modelled from the spec: the declaration of \<open>pb.Span\<close> is not part of the sources at hand.
  The fields are the ones the data model lists (service, name, resource, start and duration,
  error flag, string tags, numeric metrics). The type \<open>'f\<close> stands for Go's \<open>float64\<close>
  throughout; nothing is assumed about its arithmetic.
\<close>

record 'f Span =
  Service :: string
  Name :: string
  Resource :: string
  Start :: int64
  Duration :: int64
  Error :: int32
  Meta :: "string \<rightharpoonup> string"
  Metrics :: "string \<rightharpoonup> 'f"

text \<open>
  Everything the functions of this file can change only through calls into other packages:
  the store of spans, and (in \<open>Ext\<close>) the internal state of the collaborators, that is the
  samplers' signature tables, the event processor's rate limiter, the receiver's rate
  limiter, the obfuscator's caches and the sublayer calculator's scratch arrays.
\<close>

record ('f, 'x) World =
  Spans :: "ptr \<Rightarrow> 'f Span"
  Ext :: 'x

text \<open>The counters of \<open>info.TagStats\<close> that \<open>Process\<close> and \<open>sample\<close> update.\<close>

record TagStats =
  SpansReceived :: int64
  SpansDropped :: int64
  TracesFiltered :: int64
  SpansFiltered :: int64
  TracesPriorityNone :: int64
  TracesPriorityNeg :: int64
  TracesPriority0 :: int64
  TracesPriority1 :: int64
  TracesPriority2 :: int64
  EventsExtracted :: int64
  EventsSampled :: int64

text \<open>
  \<open>ProcessedTrace\<close>, as \<open>Process\<close> builds it. \<open>'wt\<close> is \<open>stats.WeightedTrace\<close> and \<open>'sl\<close> is
  \<open>stats.SublayerValue\<close>; both are only passed on. \<open>Sublayers\<close> is a Go map keyed by span
  pointer.
\<close>

record ('wt, 'sl) ProcessedTrace =
  Trace :: Trace
  WeightedTrace :: 'wt
  Root :: ptr
  Env :: string
  Sublayers :: "ptr \<rightharpoonup> 'sl list"

text \<open>\<open>stats.Subtrace\<close>: a root and the spans below it.\<close>

record Subtrace =
  Root :: ptr
  Trace :: Trace

text \<open>\<open>stats.Input\<close>, one element of the batch handed to the Concentrator.\<close>

record ('wt, 'sl) Input =
  Trace :: 'wt
  Sublayers :: "ptr \<rightharpoonup> 'sl list"
  Env :: string
  SublayersOnly :: bool

text \<open>\<open>writer.SampledSpans\<close>, the batch handed to the trace writer; \<open>'at\<close> is \<open>*pb.APITrace\<close>.\<close>

record 'at SampledSpans =
  Traces :: "'at list"
  Events :: "ptr list"
  Size :: go_int
  SpanCount :: int64

text \<open>
  \<open>api.Payload\<close>. \<open>Source\<close> is a pointer to the tag statistics of the sender in Go; here it
  is their value when \<open>Process\<close> starts, and \<open>Process\<close> returns the updated value.
\<close>

record Payload =
  Traces :: "Trace list"
  Source :: TagStats
  ContainerTags :: string
  ClientComputedTopLevel :: bool
  ClientComputedStats :: bool

text \<open>
  The client statistics of \<open>pb/stats.pb.go\<close>: a payload holds buckets, a bucket holds the
  grouped statistics of one flush interval.
\<close>

record ClientGroupedStats =
  Service :: string
  Name :: string
  Resource :: string
  HTTPStatusCode :: uint32
  Type :: string
  DBType :: string
  Hits :: uint64
  Errors :: uint64
  Duration :: uint64

record ClientStatsBucket =
  Start :: uint64
  Duration :: uint64
  Stats :: "ClientGroupedStats list"

record ClientStatsPayload =
  Hostname :: string
  Env :: string
  Version :: string
  Stats :: "ClientStatsBucket list"

text \<open>
  \<open>stats.Count\<close>, \<open>stats.Bucket\<close> and \<open>stats.Payload\<close> with the fields \<open>ProcessStats\<close> sets;
  \<open>'tg\<close> is \<open>stats.TagSet\<close>. \<open>Counts\<close> is a Go map from key to count.
\<close>

record ('f, 'tg) Count =
  Key :: string
  Name :: string
  Measure :: string
  TagSet :: 'tg
  TopLevel :: 'f
  Value :: 'f

record ('f, 'tg) Bucket =
  Start :: int64
  Duration :: int64
  Counts :: "string \<rightharpoonup> ('f, 'tg) Count"

record ('f, 'tg) StatsPayload =
  HostName :: string
  Env :: string
  Stats :: "('f, 'tg) Bucket list"

section \<open>Collaborators\<close>

text \<open>
  The methods of the components the \<open>Agent\<close> struct holds. None of them is defined in the
  sources at hand, so each is a parameter. A call that may change spans or internal state
  takes the world and returns the new one; a call that only reads takes the world. A
  sampler returns its decision and its rate, as in the specification's
  \<open>evaluate(trace) -> (keep, rate)\<close>. The two calls on a group of client statistics work on
  a local copy of the group; following the specification, which takes obfuscation and tag
  replacement as pure transforms, they are functions from the group to the sanitized group.
\<close>

record ('f, 'x, 'wt, 'sl) Agent =
  conf_DefaultEnv :: string
  Blacklister_Allows :: "('f, 'x) World \<Rightarrow> ptr \<Rightarrow> bool"
  Replacer_Replace :: "Trace \<Rightarrow> ('f, 'x) World \<Rightarrow> ('f, 'x) World"
  obfuscator_Obfuscate :: "ptr \<Rightarrow> ('f, 'x) World \<Rightarrow> ('f, 'x) World"
  RateLimiter_Active :: "('f, 'x) World \<Rightarrow> bool"
  RateLimiter_RealRate :: "('f, 'x) World \<Rightarrow> 'f"
  PrioritySampler_Add ::
    "('wt, 'sl) ProcessedTrace \<Rightarrow> ('f, 'x) World \<Rightarrow> (bool \<times> 'f) \<times> ('f, 'x) World"
  ErrorsScoreSampler_Add ::
    "('wt, 'sl) ProcessedTrace \<Rightarrow> ('f, 'x) World \<Rightarrow> (bool \<times> 'f) \<times> ('f, 'x) World"
  ScoreSampler_Add ::
    "('wt, 'sl) ProcessedTrace \<Rightarrow> ('f, 'x) World \<Rightarrow> (bool \<times> 'f) \<times> ('f, 'x) World"
  ExceptionSampler_Add ::
    "string \<Rightarrow> ptr \<Rightarrow> Trace \<Rightarrow> ('f, 'x) World \<Rightarrow> bool \<times> ('f, 'x) World"
  EventProcessor_Process ::
    "ptr \<Rightarrow> Trace \<Rightarrow> ('f, 'x) World \<Rightarrow> (ptr list \<times> int64) \<times> ('f, 'x) World"
  obfuscator_ObfuscateStatsGroup :: "ClientGroupedStats \<Rightarrow> ClientGroupedStats"
  Replacer_ReplaceStatsGroup :: "ClientGroupedStats \<Rightarrow> ClientGroupedStats"

text \<open>
  The functions and constants of the imported packages (\<open>sampler\<close>, \<open>traceutil\<close>, \<open>stats\<close>,
  \<open>writer\<close>, \<open>pb\<close>) and the two helpers of package \<open>agent\<close> defined in other files
  (\<open>normalizeTrace\<close>, \<open>Truncate\<close>), again as parameters. \<open>normalizeTrace\<close> returns the error
  (\<open>None\<close> for Go's \<open>nil\<close>) and may change the spans. In Go it is handed the pointer to the
  tag statistics; following the specification's contract \<open>normalize(trace) -> error\<close> it is
  taken to leave the counters listed above as they are, so here it reads them and returns
  none. A slice of span pointers is not changed by a callee; the spans it points to may be.
\<close>

record ('f, 'x, 'wt, 'sl, 'at) Imports =
  normalizeTrace :: "TagStats \<Rightarrow> Trace \<Rightarrow> ('f, 'x) World \<Rightarrow> string option \<times> ('f, 'x) World"
  Truncate :: "ptr \<Rightarrow> ('f, 'x) World \<Rightarrow> ('f, 'x) World"
  traceutil_GetRoot :: "('f, 'x) World \<Rightarrow> Trace \<Rightarrow> ptr"
  traceutil_SetMeta :: "ptr \<Rightarrow> string \<Rightarrow> string \<Rightarrow> ('f, 'x) World \<Rightarrow> ('f, 'x) World"
  traceutil_ComputeTopLevel :: "Trace \<Rightarrow> ('f, 'x) World \<Rightarrow> ('f, 'x) World"
  traceutil_GetEnv :: "('f, 'x) World \<Rightarrow> Trace \<Rightarrow> string"
  traceutil_APITrace :: "('f, 'x) World \<Rightarrow> Trace \<Rightarrow> 'at"
  sampler_GetGlobalRate :: "('f, 'x) World \<Rightarrow> ptr \<Rightarrow> 'f"
  sampler_SetClientRate :: "ptr \<Rightarrow> 'f \<Rightarrow> ('f, 'x) World \<Rightarrow> ('f, 'x) World"
  sampler_SetPreSampleRate :: "ptr \<Rightarrow> 'f \<Rightarrow> ('f, 'x) World \<Rightarrow> ('f, 'x) World"
  sampler_AddGlobalRate :: "ptr \<Rightarrow> 'f \<Rightarrow> ('f, 'x) World \<Rightarrow> ('f, 'x) World"
  sampler_GetSamplingPriority :: "('f, 'x) World \<Rightarrow> ptr \<Rightarrow> int \<times> bool"
  sampler_CombineRates :: "'f \<Rightarrow> 'f \<Rightarrow> 'f"
  stats_NewWeightedTrace :: "('f, 'x) World \<Rightarrow> Trace \<Rightarrow> ptr \<Rightarrow> 'wt"
  stats_ExtractSubtraces :: "('f, 'x) World \<Rightarrow> Trace \<Rightarrow> ptr \<Rightarrow> Subtrace list"
  stats_SetSublayersOnSpan :: "ptr \<Rightarrow> 'sl list \<Rightarrow> ('f, 'x) World \<Rightarrow> ('f, 'x) World"
  ComputeSublayers :: "Trace \<Rightarrow> ('f, 'x) World \<Rightarrow> 'sl list \<times> ('f, 'x) World"
  Msgsize :: "('f, 'x) World \<Rightarrow> Trace \<Rightarrow> go_int"
  writer_MaxPayloadSize :: go_int

section \<open>Sampling\<close>

text \<open>\<open>traceContainsError\<close>: some span of the trace has a non-zero \<open>Error\<close>.\<close>

fun traceContainsError :: "('f, 'x) World \<Rightarrow> Trace \<Rightarrow> bool" where
  "traceContainsError w [] = False"
| "traceContainsError w (sp # trace) =
     (if Error (Spans w sp) \<noteq> 0 then True else traceContainsError w trace)"

text \<open>
  \<open>samplePriorityTrace\<close>: the priority sampler always runs; then the error sampler if the
  trace contains an error, the exception sampler otherwise.
\<close>

definition samplePriorityTrace ::
  "('f::one, 'x, 'wt, 'sl, 'at) Imports \<Rightarrow> ('f, 'x, 'wt, 'sl) Agent \<Rightarrow>
   ('wt, 'sl) ProcessedTrace \<Rightarrow> ('f, 'x) World \<Rightarrow> (bool \<times> 'f) \<times> ('f, 'x) World" where
  "samplePriorityTrace im a pt w =
     (case PrioritySampler_Add a pt w of ((sampledPriority, ratePriority), w1) \<Rightarrow>
        if traceContainsError w1 (ProcessedTrace.Trace pt) then
          (case ErrorsScoreSampler_Add a pt w1 of ((sampledError, rateError), w2) \<Rightarrow>
             ((sampledError \<or> sampledPriority, sampler_CombineRates im ratePriority rateError), w2))
        else
          (case ExceptionSampler_Add a (ProcessedTrace.Env pt) (ProcessedTrace.Root pt)
                  (ProcessedTrace.Trace pt) w1 of (sampled, w2) \<Rightarrow>
             if sampled then ((sampled, 1), w2)
             else ((sampledPriority, ratePriority), w2)))"

text \<open>\<open>sampleNoPriorityTrace\<close>: the error sampler or the score sampler, never both.\<close>

definition sampleNoPriorityTrace ::
  "('f, 'x, 'wt, 'sl) Agent \<Rightarrow> ('wt, 'sl) ProcessedTrace \<Rightarrow> ('f, 'x) World \<Rightarrow>
   (bool \<times> 'f) \<times> ('f, 'x) World" where
  "sampleNoPriorityTrace a pt w =
     (if traceContainsError w (ProcessedTrace.Trace pt) then ErrorsScoreSampler_Add a pt w
      else ScoreSampler_Add a pt w)"

definition runSamplers ::
  "('f::one, 'x, 'wt, 'sl, 'at) Imports \<Rightarrow> ('f, 'x, 'wt, 'sl) Agent \<Rightarrow>
   ('wt, 'sl) ProcessedTrace \<Rightarrow> bool \<Rightarrow> ('f, 'x) World \<Rightarrow> (bool \<times> 'f) \<times> ('f, 'x) World" where
  "runSamplers im a pt hasPriority w =
     (if hasPriority then samplePriorityTrace im a pt w else sampleNoPriorityTrace a pt w)"

text \<open>
  In \<open>sample\<close> the variable \<open>stat\<close> points to one of five counters, chosen from the priority,
  and is incremented once by \<open>atomic.AddInt64(stat, 1)\<close>.
\<close>

datatype stat_ptr =
  addr_TracesPriorityNone | addr_TracesPriorityNeg | addr_TracesPriority0
  | addr_TracesPriority1 | addr_TracesPriority2

fun AddInt64 :: "stat_ptr \<Rightarrow> int64 \<Rightarrow> TagStats \<Rightarrow> TagStats" where
  "AddInt64 addr_TracesPriorityNone d ts = ts\<lparr>TracesPriorityNone := TracesPriorityNone ts + d\<rparr>"
| "AddInt64 addr_TracesPriorityNeg d ts = ts\<lparr>TracesPriorityNeg := TracesPriorityNeg ts + d\<rparr>"
| "AddInt64 addr_TracesPriority0 d ts = ts\<lparr>TracesPriority0 := TracesPriority0 ts + d\<rparr>"
| "AddInt64 addr_TracesPriority1 d ts = ts\<lparr>TracesPriority1 := TracesPriority1 ts + d\<rparr>"
| "AddInt64 addr_TracesPriority2 d ts = ts\<lparr>TracesPriority2 := TracesPriority2 ts + d\<rparr>"

definition select_stat :: "int \<Rightarrow> bool \<Rightarrow> stat_ptr" where
  "select_stat priority hasPriority =
     (if hasPriority then
        (if priority < 0 then addr_TracesPriorityNeg
         else if priority = 0 then addr_TracesPriority0
         else if priority = 1 then addr_TracesPriority1
         else addr_TracesPriority2)
      else addr_TracesPriorityNone)"

text \<open>
  \<open>sample\<close> returns the events and the keep decision, with the updated counters and world.
  Go's \<open>nil\<close> slice of events is the empty list.
\<close>

definition sample ::
  "('f::one, 'x, 'wt, 'sl, 'at) Imports \<Rightarrow> ('f, 'x, 'wt, 'sl) Agent \<Rightarrow> TagStats \<Rightarrow>
   ('wt, 'sl) ProcessedTrace \<Rightarrow> ('f, 'x) World \<Rightarrow>
   (ptr list \<times> bool) \<times> TagStats \<times> ('f, 'x) World" where
  "sample im a ts pt w =
     (case sampler_GetSamplingPriority im w (ProcessedTrace.Root pt) of (priority, hasPriority) \<Rightarrow>
        let ts1 = AddInt64 (select_stat priority hasPriority) 1 ts in
        if priority < 0 then (([], False), ts1, w)
        else
          (case runSamplers im a pt hasPriority w of ((sampled, rate), w1) \<Rightarrow>
             let w2 = (if sampled then sampler_AddGlobalRate im (ProcessedTrace.Root pt) rate w1
                       else w1) in
             (case EventProcessor_Process a (ProcessedTrace.Root pt) (ProcessedTrace.Trace pt) w2 of
                ((events, numExtracted), w3) \<Rightarrow>
                  let ts2 = ts1\<lparr>EventsExtracted := EventsExtracted ts1 + numExtracted\<rparr>;
                      ts3 = ts2\<lparr>EventsSampled := EventsSampled ts2 + of_nat (length events)\<rparr>
                  in ((events, sampled), ts3, w3))))"

section \<open>Process\<close>

text \<open>
  The loop of \<open>Process\<close> keeps the counters \<open>ts\<close>, the batch \<open>ss\<close> of sampled spans and the
  slice \<open>sinputs\<close>; it sends on the channel \<open>a.TraceWriter.In\<close>. A channel is the list of the
  messages sent on it so far, oldest first. One worker is modelled: the other workers, which
  share the counters and the samplers, are not. Logging and the timing metric of \<open>Process\<close>
  are left out. The fields \<open>v_ts\<close>, \<open>v_ss\<close> and \<open>v_sinputs\<close> are the local variables \<open>ts\<close>,
  \<open>ss\<close> and \<open>sinputs\<close>; \<open>v_world\<close> is the world.
\<close>

record ('f, 'x, 'wt, 'sl, 'at) ProcessState =
  v_ts :: TagStats
  v_ss :: "'at SampledSpans"
  v_sinputs :: "('wt, 'sl) Input list"
  TraceWriter_In :: "'at SampledSpans list"
  v_world :: "('f, 'x) World"

definition tagContainersTags :: string where
  "tagContainersTags = ''_dd.tags.container''"

text \<open>\<open>new(writer.SampledSpans)\<close>: the zero value.\<close>

definition new_SampledSpans :: "'at SampledSpans" where
  "new_SampledSpans = \<lparr>SampledSpans.Traces = [], Events = [], Size = 0, SpanCount = 0\<rparr>"

text \<open>The loop \<open>for _, span := range t { a.obfuscator.Obfuscate(span); Truncate(span) }\<close>.\<close>

fun obfuscate_spans ::
  "('f, 'x, 'wt, 'sl, 'at) Imports \<Rightarrow> ('f, 'x, 'wt, 'sl) Agent \<Rightarrow> Trace \<Rightarrow>
   ('f, 'x) World \<Rightarrow> ('f, 'x) World" where
  "obfuscate_spans im a [] w = w"
| "obfuscate_spans im a (sp # t) w =
     obfuscate_spans im a t (Truncate im sp (obfuscator_Obfuscate a sp w))"

text \<open>The block that sets up the tags of the root.\<close>

definition set_root_tags ::
  "('f, 'x, 'wt, 'sl, 'at) Imports \<Rightarrow> ('f, 'x, 'wt, 'sl) Agent \<Rightarrow> Payload \<Rightarrow> ptr \<Rightarrow>
   ('f, 'x) World \<Rightarrow> ('f, 'x) World" where
  "set_root_tags im a p rootp w =
     (let clientSampleRate = sampler_GetGlobalRate im w rootp;
          w1 = sampler_SetClientRate im rootp clientSampleRate w;
          w2 = (if RateLimiter_Active a w1 then
                  (let rate = RateLimiter_RealRate a w1 in
                   sampler_AddGlobalRate im rootp rate (sampler_SetPreSampleRate im rootp rate w1))
                else w1)
      in if ContainerTags p \<noteq> [] then
           traceutil_SetMeta im rootp tagContainersTags (ContainerTags p) w2
         else w2)"

text \<open>
  The extra sanitization of an accepted trace: every span is obfuscated and truncated, in
  the order of the trace, and then the replacer runs on the whole trace.
\<close>

definition sanitize_trace ::
  "('f, 'x, 'wt, 'sl, 'at) Imports \<Rightarrow> ('f, 'x, 'wt, 'sl) Agent \<Rightarrow> Trace \<Rightarrow>
   ('f, 'x) World \<Rightarrow> ('f, 'x) World" where
  "sanitize_trace im a t w = Replacer_Replace a t (obfuscate_spans im a t w)"

text \<open>
  From the tags of the root to the construction of the \<open>ProcessedTrace\<close>: what \<open>Process\<close>
  does to a sanitized trace before it calls \<open>sample\<close>.
\<close>

definition prepare_trace ::
  "('f, 'x, 'wt, 'sl, 'at) Imports \<Rightarrow> ('f, 'x, 'wt, 'sl) Agent \<Rightarrow> Payload \<Rightarrow> Trace \<Rightarrow> ptr \<Rightarrow>
   ('f, 'x) World \<Rightarrow> ('wt, 'sl) ProcessedTrace \<times> ('f, 'x) World" where
  "prepare_trace im a p t rootp w =
     (let w1 = set_root_tags im a p rootp w;
          w2 = (if \<not> ClientComputedTopLevel p then traceutil_ComputeTopLevel im t w1 else w1);
          v = traceutil_GetEnv im w2 t;
          env = (if v \<noteq> [] then v else conf_DefaultEnv a)
      in (\<lparr>ProcessedTrace.Trace = t,
           WeightedTrace = stats_NewWeightedTrace im w2 t rootp,
           ProcessedTrace.Root = rootp,
           ProcessedTrace.Env = env,
           ProcessedTrace.Sublayers = Map.empty\<rparr>, w2))"

text \<open>
  The loop over the subtraces: the sublayers of each are stored in the map under the
  subtrace's root, and set on that root when the trace is kept.
\<close>

fun sublayers_loop ::
  "('f, 'x, 'wt, 'sl, 'at) Imports \<Rightarrow> bool \<Rightarrow> Subtrace list \<Rightarrow> (ptr \<rightharpoonup> 'sl list) \<Rightarrow>
   ('f, 'x) World \<Rightarrow> (ptr \<rightharpoonup> 'sl list) \<times> ('f, 'x) World" where
  "sublayers_loop im keep [] m w = (m, w)"
| "sublayers_loop im keep (subtrace # rest) m w =
     (case ComputeSublayers im (Subtrace.Trace subtrace) w of (subtraceSublayers, w1) \<Rightarrow>
        sublayers_loop im keep rest (m(Subtrace.Root subtrace \<mapsto> subtraceSublayers))
          (if keep then stats_SetSublayersOnSpan im (Subtrace.Root subtrace) subtraceSublayers w1
           else w1))"

text \<open>The batch after the kept trace and the events have been appended to it.\<close>

definition append_batch ::
  "('f, 'x, 'wt, 'sl, 'at) Imports \<Rightarrow> ('f, 'x) World \<Rightarrow> Trace \<Rightarrow> ptr list \<Rightarrow> bool \<Rightarrow>
   'at SampledSpans \<Rightarrow> 'at SampledSpans" where
  "append_batch im w t events keep ss =
     (let ss1 = (if keep then
                   ss\<lparr>SampledSpans.Traces := SampledSpans.Traces ss @ [traceutil_APITrace im w t],
                      Size := Size ss + Msgsize im w t,
                      SpanCount := SpanCount ss + of_nat (length t)\<rparr>
                 else ss)
      in if length events > 0 then
           ss1\<lparr>Events := Events ss1 @ events, Size := Size ss1 + Msgsize im w events\<rparr>
         else ss1)"

text \<open>
  The end of the loop body: a batch whose size exceeds \<open>writer.MaxPayloadSize\<close> is sent to
  the trace writer and a new one is started.
\<close>

definition flush_if_full ::
  "('f, 'x, 'wt, 'sl, 'at) Imports \<Rightarrow> ('f, 'x, 'wt, 'sl, 'at) ProcessState \<Rightarrow>
   ('f, 'x, 'wt, 'sl, 'at) ProcessState" where
  "flush_if_full im s =
     (if writer_MaxPayloadSize im <s Size (v_ss s) then
        s\<lparr>TraceWriter_In := TraceWriter_In s @ [v_ss s], v_ss := new_SampledSpans\<rparr>
      else s)"

text \<open>
  What the loop body does with a sanitized trace up to the size check: the trace is
  prepared and sampled, its sublayers are computed, its \<open>stats.Input\<close> is appended to
  \<open>sinputs\<close>, and the kept trace and the events are appended to the batch. \<open>ts1\<close> holds the
  counters after \<open>SpansReceived\<close> has been increased.
\<close>

definition collect_trace ::
  "('f::one, 'x, 'wt, 'sl, 'at) Imports \<Rightarrow> ('f, 'x, 'wt, 'sl) Agent \<Rightarrow> Payload \<Rightarrow>
   ('f, 'x, 'wt, 'sl, 'at) ProcessState \<Rightarrow> TagStats \<Rightarrow> Trace \<Rightarrow> ptr \<Rightarrow> ('f, 'x) World \<Rightarrow>
   ('f, 'x, 'wt, 'sl, 'at) ProcessState" where
  "collect_trace im a p s ts1 t rootp w =
     (case prepare_trace im a p t rootp w of (pt, w2) \<Rightarrow>
      case sample im a ts1 pt w2 of ((events, keep), ts2, w3) \<Rightarrow>
      case sublayers_loop im keep (stats_ExtractSubtraces im w3 t rootp)
             (ProcessedTrace.Sublayers pt) w3 of (sublayers, w4) \<Rightarrow>
        s\<lparr>v_ts := ts2,
          v_ss := append_batch im w4 t events keep (v_ss s),
          v_sinputs := v_sinputs s @
            [\<lparr>Input.Trace = WeightedTrace pt,
              Input.Sublayers = sublayers,
              Input.Env = ProcessedTrace.Env pt,
              SublayersOnly = ClientComputedStats p\<rparr>],
          v_world := w4\<rparr>)"

text \<open>
  The counters after \<open>atomic.AddInt64(&ts.SpansReceived, tracen)\<close>, where \<open>tracen\<close> is the
  number of spans of the trace.
\<close>

definition count_received ::
  "('f, 'x, 'wt, 'sl, 'at) ProcessState \<Rightarrow> Trace \<Rightarrow> TagStats" where
  "count_received s t = (v_ts s)\<lparr>SpansReceived := SpansReceived (v_ts s) + of_nat (length t)\<rparr>"

text \<open>
  The body of the loop over \<open>p.Traces\<close>. Each \<open>continue\<close> of the source is a branch that
  returns the state as it is then: for an empty trace, for a trace that \<open>normalizeTrace\<close>
  rejects, and for a trace whose root the blacklister does not allow.
\<close>

definition process_trace ::
  "('f::one, 'x, 'wt, 'sl, 'at) Imports \<Rightarrow> ('f, 'x, 'wt, 'sl) Agent \<Rightarrow> Payload \<Rightarrow>
   ('f, 'x, 'wt, 'sl, 'at) ProcessState \<Rightarrow> Trace \<Rightarrow> ('f, 'x, 'wt, 'sl, 'at) ProcessState" where
  "process_trace im a p s t =
     (if length t = 0 then s
      else
        let tracen = of_nat (length t);
            ts1 = count_received s t
        in case normalizeTrace im ts1 t (v_world s) of
             (Some err, w1) \<Rightarrow>
               s\<lparr>v_ts := ts1\<lparr>SpansDropped := SpansDropped ts1 + tracen\<rparr>, v_world := w1\<rparr>
           | (None, w1) \<Rightarrow>
               let rootp = traceutil_GetRoot im w1 t in
               if \<not> Blacklister_Allows a w1 rootp then
                 s\<lparr>v_ts := ts1\<lparr>TracesFiltered := TracesFiltered ts1 + 1,
                               SpansFiltered := SpansFiltered ts1 + tracen\<rparr>,
                   v_world := w1\<rparr>
               else
                 flush_if_full im
                   (collect_trace im a p s ts1 t rootp (sanitize_trace im a t w1)))"

text \<open>
  The state when the loop starts: the counters of the payload's source, a new batch, no
  \<open>stats.Input\<close> yet.
\<close>

definition initial_state ::
  "Payload \<Rightarrow> 'at SampledSpans list \<Rightarrow> ('f, 'x) World \<Rightarrow> ('f, 'x, 'wt, 'sl, 'at) ProcessState" where
  "initial_state p tw_in w =
     \<lparr>v_ts = Source p, v_ss = new_SampledSpans, v_sinputs = [],
      TraceWriter_In = tw_in, v_world = w\<rparr>"

text \<open>
  \<open>Process\<close>: given the messages already on the two channels and the world, it returns the
  counters, the two channels and the world when the payload has been handled. An empty
  payload is skipped.
\<close>

definition Process ::
  "('f::one, 'x, 'wt, 'sl, 'at) Imports \<Rightarrow> ('f, 'x, 'wt, 'sl) Agent \<Rightarrow> Payload \<Rightarrow>
   'at SampledSpans list \<Rightarrow> ('wt, 'sl) Input list list \<Rightarrow> ('f, 'x) World \<Rightarrow>
   TagStats \<times> 'at SampledSpans list \<times> ('wt, 'sl) Input list list \<times> ('f, 'x) World" where
  "Process im a p tw_in conc_in w =
     (if length (Payload.Traces p) = 0 then (Source p, tw_in, conc_in, w)
      else
        let s = foldl (process_trace im a p) (initial_state p tw_in w) (Payload.Traces p)
        in (v_ts s,
            (if 0 <s Size (v_ss s) then TraceWriter_In s @ [v_ss s] else TraceWriter_In s),
            (if length (v_sinputs s) > 0 then conc_in @ [v_sinputs s] else conc_in),
            v_world s))"

section \<open>ProcessStats\<close>

text \<open>
  What \<open>ProcessStats\<close> imports: \<open>normalizeStatsGroup\<close> of package \<open>agent\<close>,
  \<open>traceutil.NormalizeTag\<close>, \<open>stats.AssembleGrain\<close>, \<open>stats.GrainKey\<close> and the three
  measure names of package \<open>stats\<close>. \<open>AssembleGrain\<close> writes through the
  \<open>strings.Builder\<close> it is given, so it takes the builder's content and returns the new
  content besides the grain and the tag set. \<open>float64\<close> is Go's conversion from \<open>uint64\<close>.
\<close>

record ('f, 'tg) StatsImports =
  traceutil_NormalizeTag :: "string \<Rightarrow> string"
  normalizeStatsGroup :: "ClientGroupedStats \<Rightarrow> string \<Rightarrow> ClientGroupedStats"
  stats_AssembleGrain ::
    "string \<Rightarrow> string \<Rightarrow> string \<Rightarrow> string \<Rightarrow> (string \<rightharpoonup> string) \<Rightarrow> (string \<times> 'tg) \<times> string"
  stats_GrainKey :: "string \<Rightarrow> string \<Rightarrow> string \<Rightarrow> string"
  stats_HITS :: string
  stats_ERRORS :: string
  stats_DURATION :: string
  float64 :: "uint64 \<Rightarrow> 'f"

text \<open>
  \<open>strconv.Itoa\<close> on a number that is not negative: its decimal digits. \<open>digit\<close> is only
  applied to numbers below 10.
\<close>

definition digit :: "nat \<Rightarrow> char" where
  "digit d = ''0123456789'' ! d"

function Itoa :: "nat \<Rightarrow> string" where
  "Itoa n = (if n < 10 then [digit n] else Itoa (n div 10) @ [digit (n mod 10)])"
  by pat_completeness auto
termination
  by (relation "measure id") auto

declare Itoa.simps [simp del]

text \<open>
  The three calls that open the inner loop body: the group is normalized, obfuscated and
  tag-replaced, in this order.
\<close>

definition sanitize_group ::
  "('f, 'tg) StatsImports \<Rightarrow> ('f, 'x, 'wt, 'sl) Agent \<Rightarrow> string \<Rightarrow> ClientGroupedStats \<Rightarrow>
   ClientGroupedStats" where
  "sanitize_group si a lang b0 =
     Replacer_ReplaceStatsGroup a
       (obfuscator_ObfuscateStatsGroup a (normalizeStatsGroup si b0 lang))"

text \<open>
  The tags of a group: the version of the payload and, when it is not 0, the HTTP status
  code in decimal.
\<close>

definition stats_tags :: "string \<Rightarrow> ClientGroupedStats \<Rightarrow> (string \<rightharpoonup> string)" where
  "stats_tags version b =
     (let tags = [''version'' \<mapsto> version]
      in if HTTPStatusCode b \<noteq> 0
         then tags(''http.status_code'' \<mapsto> Itoa (unat (HTTPStatusCode b)))
         else tags)"

text \<open>
  The \<open>stats.Bucket\<close> built in the inner loop from one group \<open>b\<close> of the client bucket
  \<open>group\<close> (here \<open>grp\<close>, with \<open>b0\<close> for the group as it is received): the grain is assembled
  once, and three counts are stored in the map under the keys of the three measures, in
  the order hits, errors, duration. It is returned with the new content of \<open>buf\<close>.
\<close>

definition group_bucket ::
  "('f, 'tg) StatsImports \<Rightarrow> ('f, 'x, 'wt, 'sl) Agent \<Rightarrow> string \<Rightarrow> string \<Rightarrow> string \<Rightarrow>
   ClientStatsBucket \<Rightarrow> string \<Rightarrow> ClientGroupedStats \<Rightarrow> ('f, 'tg) Bucket \<times> string" where
  "group_bucket si a env version lang grp buf b0 =
     (let b = sanitize_group si a lang b0;
          tags = stats_tags version b
      in case stats_AssembleGrain si buf env (ClientGroupedStats.Resource b)
                (ClientGroupedStats.Service b) tags of
           ((grain, tagset), buf1) \<Rightarrow>
             let key1 = stats_GrainKey si (ClientGroupedStats.Name b) (stats_HITS si) grain;
                 counts1 = Map.empty(key1 \<mapsto>
                   \<lparr>Key = key1, Count.Name = ClientGroupedStats.Name b,
                    Measure = stats_HITS si, TagSet = tagset,
                    TopLevel = float64 si (Hits b), Value = float64 si (Hits b)\<rparr>);
                 key2 = stats_GrainKey si (ClientGroupedStats.Name b) (stats_ERRORS si) grain;
                 counts2 = counts1(key2 \<mapsto>
                   \<lparr>Key = key2, Count.Name = ClientGroupedStats.Name b,
                    Measure = stats_ERRORS si, TagSet = tagset,
                    TopLevel = float64 si (Hits b), Value = float64 si (Errors b)\<rparr>);
                 key3 = stats_GrainKey si (ClientGroupedStats.Name b) (stats_DURATION si) grain;
                 counts3 = counts2(key3 \<mapsto>
                   \<lparr>Key = key3, Count.Name = ClientGroupedStats.Name b,
                    Measure = stats_DURATION si, TagSet = tagset,
                    TopLevel = float64 si (Hits b),
                    Value = float64 si (ClientGroupedStats.Duration b)\<rparr>)
             in (\<lparr>Bucket.Start = ClientStatsBucket.Start grp,
                  Bucket.Duration = ClientStatsBucket.Duration grp,
                  Counts = counts3\<rparr>, buf1))"

text \<open>
  The body of the inner loop: the bucket of the group is appended to \<open>out.Stats\<close>. The
  state of the two loops is \<open>out.Stats\<close> and the content of \<open>buf\<close>.
\<close>

definition process_stats_group ::
  "('f, 'tg) StatsImports \<Rightarrow> ('f, 'x, 'wt, 'sl) Agent \<Rightarrow> string \<Rightarrow> string \<Rightarrow> string \<Rightarrow>
   ClientStatsBucket \<Rightarrow> ('f, 'tg) Bucket list \<times> string \<Rightarrow> ClientGroupedStats \<Rightarrow>
   ('f, 'tg) Bucket list \<times> string" where
  "process_stats_group si a env version lang grp acc b0 =
     (case acc of (out_Stats, buf) \<Rightarrow>
      case group_bucket si a env version lang grp buf b0 of (newb, buf1) \<Rightarrow>
        (out_Stats @ [newb], buf1))"

text \<open>
  The environment of the outgoing payload: the payload's own, or the default one when it
  is empty, normalized as a tag.
\<close>

definition stats_env ::
  "('f, 'tg) StatsImports \<Rightarrow> ('f, 'x, 'wt, 'sl) Agent \<Rightarrow> ClientStatsPayload \<Rightarrow> string" where
  "stats_env si a inp =
     traceutil_NormalizeTag si
       (if ClientStatsPayload.Env inp = [] then conf_DefaultEnv a
        else ClientStatsPayload.Env inp)"

text \<open>
  \<open>ProcessStats\<close> sends the payload on \<open>a.OutStats\<close>: it takes the messages already on the
  channel and returns them with the new payload at the end.
\<close>

definition ProcessStats ::
  "('f, 'tg) StatsImports \<Rightarrow> ('f, 'x, 'wt, 'sl) Agent \<Rightarrow> ClientStatsPayload \<Rightarrow> string \<Rightarrow>
   ('f, 'tg) StatsPayload list \<Rightarrow> ('f, 'tg) StatsPayload list" where
  "ProcessStats si a inp lang OutStats =
     (let env = stats_env si a inp;
          res = foldl (\<lambda>acc grp.
                   foldl (process_stats_group si a env (Version inp) lang grp) acc
                     (ClientStatsBucket.Stats grp))
                  ([], []) (ClientStatsPayload.Stats inp)
      in OutStats @
           [\<lparr>HostName = Hostname inp, StatsPayload.Env = env, StatsPayload.Stats = fst res\<rparr>])"

section \<open>The combination of two rates\<close>

text \<open>
  Modelled from the spec: \<open>sampler.CombineRates\<close> is called by \<open>samplePriorityTrace\<close> but
  defined in package \<open>sampler\<close>, which is not part of the sources at hand. The specification
  gives the rule for two rates between 0 and 1: \<open>rate = 1 / (1/r1 + 1/r2 - 1)\<close>. Rates are
  real numbers here; the rounding of Go's \<open>float64\<close> is not modelled.
\<close>

definition CombineRates :: "real \<Rightarrow> real \<Rightarrow> real" where
  "CombineRates r1 r2 = 1 / (1 / r1 + 1 / r2 - 1)"

section \<open>A concrete agent\<close>

text \<open>
  Collaborators to run the model on. The internal state of the world is the list of the
  calls made so far, so that a run shows which collaborator was called, and in which order.
  Span 1 has no service and is rejected by this \<open>normalizeTrace\<close>; span 2 has a resource on
  the blacklist; spans 0, 3 and 4 carry the priorities 2, -1 and 0; span 4 is an error;
  span 5 carries no priority. The obfuscator rewrites every resource to \<open>?\<close>, which the
  blacklist rejects too. The root of a trace is its last span.
\<close>

definition ex_spans :: "ptr \<Rightarrow> real Span" where
  "ex_spans p =
     \<lparr>Span.Service = (if p = 1 then [] else ''web''),
      Span.Name = ''http.request'',
      Span.Resource = (if p = 2 then ''GET /health'' else ''GET /home''),
      Span.Start = 0,
      Span.Duration = 1,
      Error = (if p = 4 then 1 else 0),
      Meta = Map.empty,
      Metrics = (if p = 0 then [''_sampling_priority_v1'' \<mapsto> 2]
                 else if p = 3 then [''_sampling_priority_v1'' \<mapsto> - 1]
                 else if p = 4 then [''_sampling_priority_v1'' \<mapsto> 0]
                 else Map.empty)\<rparr>"

definition ex_world :: "(real, string list) World" where
  "ex_world = \<lparr>Spans = ex_spans, Ext = []\<rparr>"

definition called :: "string \<Rightarrow> (real, string list) World \<Rightarrow> (real, string list) World" where
  "called n w = w\<lparr>Ext := Ext w @ [n]\<rparr>"

definition ex_agent :: "(real, string list, unit, unit) Agent" where
  "ex_agent =
     \<lparr>conf_DefaultEnv = ''none'',
      Blacklister_Allows = (\<lambda>w p. Span.Resource (Spans w p) \<noteq> ''GET /health''
                                  \<and> Span.Resource (Spans w p) \<noteq> ''?''),
      Replacer_Replace = (\<lambda>t w. called ''Replace'' w),
      obfuscator_Obfuscate =
        (\<lambda>p w. called ''Obfuscate''
                  (w\<lparr>Spans := (Spans w)(p := (Spans w p)\<lparr>Span.Resource := ''?''\<rparr>)\<rparr>)),
      RateLimiter_Active = (\<lambda>w. False),
      RateLimiter_RealRate = (\<lambda>w. 1),
      PrioritySampler_Add = (\<lambda>pt w. ((False, 1 / 2), called ''PrioritySampler'' w)),
      ErrorsScoreSampler_Add = (\<lambda>pt w. ((True, 1 / 4), called ''ErrorsScoreSampler'' w)),
      ScoreSampler_Add = (\<lambda>pt w. ((True, 1), called ''ScoreSampler'' w)),
      ExceptionSampler_Add = (\<lambda>env r t w. (1 < length t, called ''ExceptionSampler'' w)),
      EventProcessor_Process = (\<lambda>r t w. (([r], 1), called ''EventProcessor'' w)),
      obfuscator_ObfuscateStatsGroup = (\<lambda>b. b\<lparr>ClientGroupedStats.Resource := ''?''\<rparr>),
      Replacer_ReplaceStatsGroup = (\<lambda>b. b)\<rparr>"

definition ex_imports :: "(real, string list, unit, unit, Trace) Imports" where
  "ex_imports =
     \<lparr>normalizeTrace =
        (\<lambda>ts t w. (if list_ex (\<lambda>p. Span.Service (Spans w p) = []) t
                    then Some ''empty service'' else None, called ''normalizeTrace'' w)),
      Truncate = (\<lambda>p w. w),
      traceutil_GetRoot = (\<lambda>w t. last t),
      traceutil_SetMeta =
        (\<lambda>p k v w. w\<lparr>Spans := (Spans w)(p := (Spans w p)\<lparr>Meta := (Meta (Spans w p))(k \<mapsto> v)\<rparr>)\<rparr>),
      traceutil_ComputeTopLevel = (\<lambda>t w. w),
      traceutil_GetEnv = (\<lambda>w t. []),
      traceutil_APITrace = (\<lambda>w t. t),
      sampler_GetGlobalRate = (\<lambda>w p. 1),
      sampler_SetClientRate = (\<lambda>p r w. w),
      sampler_SetPreSampleRate = (\<lambda>p r w. w),
      sampler_AddGlobalRate = (\<lambda>p r w. w),
      sampler_GetSamplingPriority =
        (\<lambda>w p. case Metrics (Spans w p) ''_sampling_priority_v1'' of
                  None \<Rightarrow> (0, False)
                | Some v \<Rightarrow> (if v < 0 then - 1 else if v < 1 then 0 else if v < 2 then 1 else 2,
                             True)),
      sampler_CombineRates = CombineRates,
      stats_NewWeightedTrace = (\<lambda>w t r. ()),
      stats_ExtractSubtraces = (\<lambda>w t r. []),
      stats_SetSublayersOnSpan = (\<lambda>p sl w. w),
      ComputeSublayers = (\<lambda>t w. ([], w)),
      Msgsize = (\<lambda>w t. 10 * of_nat (length t)),
      writer_MaxPayloadSize = 25\<rparr>"

definition ex_pt :: "Trace \<Rightarrow> (unit, unit) ProcessedTrace" where
  "ex_pt t = \<lparr>ProcessedTrace.Trace = t, WeightedTrace = (), ProcessedTrace.Root = last t,
              ProcessedTrace.Env = ''none'', ProcessedTrace.Sublayers = Map.empty\<rparr>"

definition ex_ts :: TagStats where
  "ex_ts = \<lparr>SpansReceived = 0, SpansDropped = 0, TracesFiltered = 0, SpansFiltered = 0,
            TracesPriorityNone = 0, TracesPriorityNeg = 0, TracesPriority0 = 0,
            TracesPriority1 = 0, TracesPriority2 = 0, EventsExtracted = 0, EventsSampled = 0\<rparr>"

definition ex_payload :: "Trace list \<Rightarrow> Payload" where
  "ex_payload ts =
     \<lparr>Payload.Traces = ts, Source = ex_ts, ContainerTags = [],
      ClientComputedTopLevel = False, ClientComputedStats = False\<rparr>"

text \<open>
  Collaborators for \<open>ProcessStats\<close>: keys and grains are joined with separators, the tag set
  is the list of the tags of the grain, and a count is the real number of the same value.
\<close>

definition ex_stats_imports :: "(real, string list) StatsImports" where
  "ex_stats_imports =
     \<lparr>traceutil_NormalizeTag = (\<lambda>e. e),
      normalizeStatsGroup = (\<lambda>b lang. b),
      stats_AssembleGrain =
        (\<lambda>buf env res svc tags.
           ((''env:'' @ env @ '',resource:'' @ res @ '',service:'' @ svc,
             [''env:'' @ env, ''resource:'' @ res, ''service:'' @ svc]),
            ''env:'' @ env @ '',resource:'' @ res @ '',service:'' @ svc)),
      stats_GrainKey = (\<lambda>name m grain. name @ ''|'' @ m @ ''|'' @ grain),
      stats_HITS = ''hits'',
      stats_ERRORS = ''errors'',
      stats_DURATION = ''duration'',
      float64 = (\<lambda>h. real (unat h))\<rparr>"

definition ex_group :: ClientGroupedStats where
  "ex_group =
     \<lparr>ClientGroupedStats.Service = ''S'', ClientGroupedStats.Name = ''web.request'',
      ClientGroupedStats.Resource = ''R'', HTTPStatusCode = 0, Type = ''web'', DBType = [],
      Hits = 10, Errors = 2, ClientGroupedStats.Duration = 500\<rparr>"

definition ex_client_bucket :: ClientStatsBucket where
  "ex_client_bucket =
     \<lparr>ClientStatsBucket.Start = 1000, ClientStatsBucket.Duration = 10,
      ClientStatsBucket.Stats = [ex_group]\<rparr>"

definition ex_client_payload :: ClientStatsPayload where
  "ex_client_payload =
     \<lparr>Hostname = ''host'', ClientStatsPayload.Env = ''prod'', Version = ''1.0'',
      ClientStatsPayload.Stats = [ex_client_bucket]\<rparr>"

section \<open>Vocabulary of the properties\<close>

text \<open>
  The groups of a client payload in the order in which the two loops of \<open>ProcessStats\<close>
  reach them, each with the client bucket it belongs to.
\<close>

definition payload_groups ::
  "ClientStatsPayload \<Rightarrow> (ClientStatsBucket \<times> ClientGroupedStats) list" where
  "payload_groups inp =
     concat (map (\<lambda>grp. map (Pair grp) (ClientStatsBucket.Stats grp))
               (ClientStatsPayload.Stats inp))"

text \<open>
  Under a key of a bucket there is a count with this key, name, measure and value.
\<close>

definition is_count ::
  "('f, 'tg) Count option \<Rightarrow> string \<Rightarrow> string \<Rightarrow> string \<Rightarrow> 'f \<Rightarrow> bool" where
  "is_count entry key name m v =
     (case entry of
        None \<Rightarrow> False
      | Some c \<Rightarrow> Key c = key \<and> Count.Name c = name \<and> Measure c = m \<and> Value c = v)"

text \<open>
  A bucket holds exactly three counts for the sanitized group \<open>b\<close> with the values \<open>h\<close>, \<open>e\<close>
  and \<open>d\<close>: there is one grain, assembled from the environment, the resource, the service
  and the tags of the group, such that the keys of the bucket are the three keys built
  from the name of the group, a measure and that grain, and under the key of each measure
  is a count with that key, name and measure, whose value is \<open>h\<close> for hits, \<open>e\<close> for errors
  and \<open>d\<close> for duration, converted to \<open>float64\<close>.
\<close>

definition has_three_counts ::
  "('f, 'tg) StatsImports \<Rightarrow> string \<Rightarrow> string \<Rightarrow> ClientGroupedStats \<Rightarrow> uint64 \<Rightarrow> uint64 \<Rightarrow>
   uint64 \<Rightarrow> ('f, 'tg) Bucket \<Rightarrow> bool" where
  "has_three_counts si env version b h e d bk =
     (\<exists>buf.
        case fst (stats_AssembleGrain si buf env (ClientGroupedStats.Resource b)
                    (ClientGroupedStats.Service b) (stats_tags version b)) of
          (grain, tagset) \<Rightarrow>
            let name = ClientGroupedStats.Name b;
                key1 = stats_GrainKey si name (stats_HITS si) grain;
                key2 = stats_GrainKey si name (stats_ERRORS si) grain;
                key3 = stats_GrainKey si name (stats_DURATION si) grain
            in dom (Counts bk) = {key1, key2, key3} \<and> card (dom (Counts bk)) = 3 \<and>
               is_count (Counts bk key1) key1 name (stats_HITS si) (float64 si h) \<and>
               is_count (Counts bk key2) key2 name (stats_ERRORS si) (float64 si e) \<and>
               is_count (Counts bk key3) key3 name (stats_DURATION si) (float64 si d))"

text \<open>
  A trace is accepted in a state of the loop when it is not empty, \<open>normalizeTrace\<close> returns
  no error on it, and the blacklister allows its root as normalization left it. These are
  the three tests the loop body makes before it does anything else with a trace.
\<close>

definition accepted ::
  "('f, 'x, 'wt, 'sl, 'at) Imports \<Rightarrow> ('f, 'x, 'wt, 'sl) Agent \<Rightarrow>
   ('f, 'x, 'wt, 'sl, 'at) ProcessState \<Rightarrow> Trace \<Rightarrow> bool" where
  "accepted im a s t =
     (t \<noteq> [] \<and>
      (case normalizeTrace im (count_received s t) t (v_world s) of
         (None, w1) \<Rightarrow> Blacklister_Allows a w1 (traceutil_GetRoot im w1 t)
       | (Some err, w1) \<Rightarrow> False))"


section \<open>Properties of the sampling decision\<close>

text \<open>
  Claim C3. A trace whose root carries a sampling priority below 0 is dropped by \<open>sample\<close>:
  no events are returned and \<open>keep\<close> is false; of the counters only \<open>TracesPriorityNeg\<close>
  changes, by one; and the world comes back as it went in, whatever the collaborators are,
  so neither the priority, score, error nor exception sampler (nor the event processor)
  has been called.
\<close>

theorem sample_negative_priority:
  assumes "sampler_GetSamplingPriority im w (ProcessedTrace.Root pt) = (priority, True)"
    and "priority < 0"
  shows "sample im a ts pt w =
           (([], False), ts\<lparr>TracesPriorityNeg := TracesPriorityNeg ts + 1\<rparr>, w)"
  using assms by (simp add: sample_def select_stat_def)

theorem sample_negative_priority_witness:
  "sampler_GetSamplingPriority ex_imports ex_world (ProcessedTrace.Root (ex_pt [3])) = (- 1, True)
   \<and> (- 1 :: int) < 0
   \<and> sample ex_imports ex_agent ex_ts (ex_pt [3]) ex_world =
       (([], False), ex_ts\<lparr>TracesPriorityNeg := TracesPriorityNeg ex_ts + 1\<rparr>, ex_world)"
proof -
  have h: "sampler_GetSamplingPriority ex_imports ex_world (ProcessedTrace.Root (ex_pt [3]))
             = (- 1, True)"
    by (simp add: ex_imports_def ex_world_def ex_pt_def ex_spans_def)
  show ?thesis
    using h sample_negative_priority [OF h, of ex_agent ex_ts] by simp
qed

text \<open>
  Claim C8. In \<open>samplePriorityTrace\<close>, when the trace contains no error and the exception
  sampler flags it, the result is \<open>keep = true\<close> with rate 1, whatever the priority sampler
  returned. The exception sampler is consulted nowhere else: when the trace contains an
  error, and in \<open>sampleNoPriorityTrace\<close>, the result (the world included) is the same for
  every exception sampler.
\<close>

theorem exception_sampler_forces_keep:
  "(PrioritySampler_Add a pt w = ((sampledPriority, ratePriority), w1) \<and>
    \<not> traceContainsError w1 (ProcessedTrace.Trace pt) \<and>
    ExceptionSampler_Add a (ProcessedTrace.Env pt) (ProcessedTrace.Root pt)
      (ProcessedTrace.Trace pt) w1 = (True, w2)
    \<longrightarrow> samplePriorityTrace im a pt w = ((True, 1), w2)) \<and>
   (traceContainsError (snd (PrioritySampler_Add a pt w)) (ProcessedTrace.Trace pt)
    \<longrightarrow> (\<forall>f. samplePriorityTrace im (a\<lparr>ExceptionSampler_Add := f\<rparr>) pt w =
             samplePriorityTrace im a pt w)) \<and>
   (\<forall>f. sampleNoPriorityTrace (a\<lparr>ExceptionSampler_Add := f\<rparr>) pt w =
        sampleNoPriorityTrace a pt w)"
  by (auto simp add: samplePriorityTrace_def sampleNoPriorityTrace_def split: prod.splits)

theorem exception_sampler_forces_keep_witness:
  "samplePriorityTrace ex_imports ex_agent (ex_pt [5, 0]) ex_world =
     ((True, 1), called ''ExceptionSampler'' (called ''PrioritySampler'' ex_world))
   \<and> samplePriorityTrace ex_imports (ex_agent\<lparr>ExceptionSampler_Add := (\<lambda>env r t w. (True, w))\<rparr>)
       (ex_pt [4]) ex_world = samplePriorityTrace ex_imports ex_agent (ex_pt [4]) ex_world"
proof -
  have a: "PrioritySampler_Add ex_agent (ex_pt [5, 0]) ex_world =
             ((False, 1 / 2), called ''PrioritySampler'' ex_world)"
    by (simp add: ex_agent_def)
  have b: "\<not> traceContainsError (called ''PrioritySampler'' ex_world)
               (ProcessedTrace.Trace (ex_pt [5, 0]))"
    by (simp add: ex_pt_def called_def ex_world_def ex_spans_def)
  have c: "ExceptionSampler_Add ex_agent (ProcessedTrace.Env (ex_pt [5, 0]))
             (ProcessedTrace.Root (ex_pt [5, 0])) (ProcessedTrace.Trace (ex_pt [5, 0]))
             (called ''PrioritySampler'' ex_world) =
           (True, called ''ExceptionSampler'' (called ''PrioritySampler'' ex_world))"
    by (simp add: ex_agent_def ex_pt_def)
  have d: "traceContainsError (snd (PrioritySampler_Add ex_agent (ex_pt [4]) ex_world))
             (ProcessedTrace.Trace (ex_pt [4]))"
    by (simp add: ex_agent_def ex_pt_def called_def ex_world_def ex_spans_def)
  from a b c d show ?thesis
    using exception_sampler_forces_keep [of ex_agent "ex_pt [5, 0]" ex_world False "1 / 2"
        "called ''PrioritySampler'' ex_world"
        "called ''ExceptionSampler'' (called ''PrioritySampler'' ex_world)" ex_imports]
      exception_sampler_forces_keep [of ex_agent "ex_pt [4]" ex_world False "1 / 2"
        "called ''PrioritySampler'' ex_world" ex_world ex_imports]
    by blast
qed

text \<open>
  Claim C2. For a trace with a priority (\<open>runSamplers\<close> with \<open>hasPriority\<close>), when the trace
  contains an error the priority sampler runs, then the error sampler runs on the world the
  priority sampler left; the decision is the disjunction of the two, and with the rule of
  the specification for \<open>CombineRates\<close> the rate for \<open>r1\<close>, \<open>r2\<close> strictly between 0 and 1 is
  \<open>1 / (1/r1 + 1/r2 - 1)\<close>. When the trace contains no error and the exception sampler does
  not fire, the decision and the rate are the priority sampler's.
\<close>

theorem priority_and_error_rates:
  assumes "sampler_CombineRates im = CombineRates"
  shows "(PrioritySampler_Add a pt w = ((sampledPriority, r1), w1) \<and>
          traceContainsError w1 (ProcessedTrace.Trace pt) \<and>
          ErrorsScoreSampler_Add a pt w1 = ((sampledError, r2), w2) \<and>
          0 < r1 \<and> r1 < 1 \<and> 0 < r2 \<and> r2 < 1
          \<longrightarrow> runSamplers im a pt True w =
                ((sampledError \<or> sampledPriority, 1 / (1 / r1 + 1 / r2 - 1)), w2)) \<and>
         (PrioritySampler_Add a pt w = ((sampledPriority, r1), w1) \<and>
          \<not> traceContainsError w1 (ProcessedTrace.Trace pt) \<and>
          ExceptionSampler_Add a (ProcessedTrace.Env pt) (ProcessedTrace.Root pt)
            (ProcessedTrace.Trace pt) w1 = (False, w2)
          \<longrightarrow> runSamplers im a pt True w = ((sampledPriority, r1), w2))"
  using assms by (simp add: runSamplers_def samplePriorityTrace_def CombineRates_def)

theorem priority_and_error_rates_witness:
  "sampler_CombineRates ex_imports = CombineRates
   \<and> runSamplers ex_imports ex_agent (ex_pt [4]) True ex_world =
       ((True, 1 / 5), called ''ErrorsScoreSampler'' (called ''PrioritySampler'' ex_world))
   \<and> runSamplers ex_imports ex_agent (ex_pt [0]) True ex_world =
       ((False, 1 / 2), called ''ExceptionSampler'' (called ''PrioritySampler'' ex_world))"
proof -
  have h: "sampler_CombineRates ex_imports = CombineRates"
    by (simp add: ex_imports_def)
  have a: "PrioritySampler_Add ex_agent (ex_pt [4]) ex_world =
             ((False, 1 / 2), called ''PrioritySampler'' ex_world)"
    and a': "PrioritySampler_Add ex_agent (ex_pt [0]) ex_world =
             ((False, 1 / 2), called ''PrioritySampler'' ex_world)"
    by (simp_all add: ex_agent_def)
  have b: "traceContainsError (called ''PrioritySampler'' ex_world)
             (ProcessedTrace.Trace (ex_pt [4]))"
    and b': "\<not> traceContainsError (called ''PrioritySampler'' ex_world)
             (ProcessedTrace.Trace (ex_pt [0]))"
    by (simp_all add: ex_pt_def called_def ex_world_def ex_spans_def)
  have c: "ErrorsScoreSampler_Add ex_agent (ex_pt [4]) (called ''PrioritySampler'' ex_world) =
             ((True, 1 / 4), called ''ErrorsScoreSampler'' (called ''PrioritySampler'' ex_world))"
    by (simp add: ex_agent_def)
  have c': "ExceptionSampler_Add ex_agent (ProcessedTrace.Env (ex_pt [0]))
              (ProcessedTrace.Root (ex_pt [0])) (ProcessedTrace.Trace (ex_pt [0]))
              (called ''PrioritySampler'' ex_world) =
            (False, called ''ExceptionSampler'' (called ''PrioritySampler'' ex_world))"
    by (simp add: ex_agent_def ex_pt_def)
  have r: "(1::real) / (1 / (1 / 2) + 1 / (1 / 4) - 1) = 1 / 5"
    by simp
  from priority_and_error_rates [OF h, of ex_agent "ex_pt [4]" ex_world False "1 / 2"
      "called ''PrioritySampler'' ex_world" True "1 / 4"
      "called ''ErrorsScoreSampler'' (called ''PrioritySampler'' ex_world)"] a b c r
  have one: "runSamplers ex_imports ex_agent (ex_pt [4]) True ex_world =
       ((True, 1 / 5), called ''ErrorsScoreSampler'' (called ''PrioritySampler'' ex_world))"
    by simp
  from priority_and_error_rates [OF h, of ex_agent "ex_pt [0]" ex_world False "1 / 2"
      "called ''PrioritySampler'' ex_world" True "1 / 4"
      "called ''ExceptionSampler'' (called ''PrioritySampler'' ex_world)"] a' b' c'
  have two: "runSamplers ex_imports ex_agent (ex_pt [0]) True ex_world =
       ((False, 1 / 2), called ''ExceptionSampler'' (called ''PrioritySampler'' ex_world))"
    by simp
  from h one two show ?thesis by simp
qed

text \<open>
  Claim C4, as stated, fails for a trace with a negative priority: \<open>sample\<close> returns before
  the event processor is called. On the trace made of span 3 (priority -1) the concrete
  event processor would extract the root as an event, yet \<open>sample\<close> returns no event and
  the record of calls stays empty.
\<close>

theorem events_negative_priority_counterexample:
  "sample ex_imports ex_agent ex_ts (ex_pt [3]) ex_world =
     (([], False), ex_ts\<lparr>TracesPriorityNeg := 1\<rparr>, ex_world)
   \<and> EventProcessor_Process ex_agent 3 [3] ex_world =
       (([3], 1), called ''EventProcessor'' ex_world)"
  by (simp add: sample_def select_stat_def ex_imports_def ex_world_def ex_pt_def ex_spans_def
      ex_agent_def ex_ts_def)

text \<open>
  Claim C4, amended. For every trace that reaches \<open>sample\<close> with a priority that is not
  negative (or with none), the event processor is run on the root and the trace, after the
  samplers, and the events it extracts are the events \<open>sample\<close> returns, whether the
  samplers keep the trace or not.
\<close>

theorem events_returned_whatever_the_decision:
  assumes "sampler_GetSamplingPriority im w (ProcessedTrace.Root pt) = (priority, hasPriority)"
    and "\<not> priority < 0"
    and "runSamplers im a pt hasPriority w = ((sampled, rate), w1)"
    and "EventProcessor_Process a (ProcessedTrace.Root pt) (ProcessedTrace.Trace pt)
           (if sampled then sampler_AddGlobalRate im (ProcessedTrace.Root pt) rate w1 else w1) =
         ((events, numExtracted), w3)"
  shows "fst (sample im a ts pt w) = (events, sampled) \<and> snd (snd (sample im a ts pt w)) = w3"
  using assms by (simp add: sample_def Let_def)

theorem events_returned_whatever_the_decision_witness:
  "sampler_GetSamplingPriority ex_imports ex_world (ProcessedTrace.Root (ex_pt [0])) = (2, True)
   \<and> \<not> (2 :: int) < 0
   \<and> fst (sample ex_imports ex_agent ex_ts (ex_pt [0]) ex_world) = ([0], False)
   \<and> Ext (snd (snd (sample ex_imports ex_agent ex_ts (ex_pt [0]) ex_world))) =
       [''PrioritySampler'', ''ExceptionSampler'', ''EventProcessor'']"
proof -
  let ?w1 = "called ''ExceptionSampler'' (called ''PrioritySampler'' ex_world)"
  have p: "sampler_GetSamplingPriority ex_imports ex_world (ProcessedTrace.Root (ex_pt [0]))
             = (2, True)"
    by (simp add: ex_imports_def ex_world_def ex_pt_def ex_spans_def)
  have n: "\<not> (2 :: int) < 0"
    by simp
  have r: "runSamplers ex_imports ex_agent (ex_pt [0]) True ex_world = ((False, 1 / 2), ?w1)"
    by (simp add: runSamplers_def samplePriorityTrace_def ex_agent_def ex_pt_def called_def
        ex_world_def ex_spans_def)
  have e: "EventProcessor_Process ex_agent (ProcessedTrace.Root (ex_pt [0]))
             (ProcessedTrace.Trace (ex_pt [0]))
             (if False then sampler_AddGlobalRate ex_imports (ProcessedTrace.Root (ex_pt [0]))
                              (1 / 2) ?w1 else ?w1) =
           (([0], 1), called ''EventProcessor'' ?w1)"
    by (simp add: ex_agent_def ex_pt_def)
  have l: "Ext (called ''EventProcessor'' ?w1) =
             [''PrioritySampler'', ''ExceptionSampler'', ''EventProcessor'']"
    by (simp add: called_def ex_world_def)
  from events_returned_whatever_the_decision [OF p n r e, of ex_ts] p n l
  show ?thesis by simp
qed

section \<open>Properties of the loop of Process\<close>

text \<open>Facts about the stages of the loop body, and the unfolding rules for concrete runs.\<close>

lemmas ex_defs = ex_imports_def ex_agent_def ex_world_def ex_spans_def ex_ts_def ex_payload_def
  called_def initial_state_def new_SampledSpans_def count_received_def

lemmas run_defs = process_trace_def flush_if_full_def collect_trace_def prepare_trace_def
  sanitize_trace_def set_root_tags_def append_batch_def sample_def select_stat_def
  runSamplers_def samplePriorityTrace_def sampleNoPriorityTrace_def accepted_def Let_def

lemma ex_ceiling_zero: "\<not> (25 :: go_int) <s 0"
  by (simp add: word_sless_alt)

lemma obfuscate_spans_foldl:
  "obfuscate_spans im a t w =
     foldl (\<lambda>w sp. Truncate im sp (obfuscator_Obfuscate a sp w)) w t"
  by (induction t arbitrary: w) simp_all


lemma collect_trace_channel:
  "TraceWriter_In (collect_trace im a p s ts1 t rootp w) = TraceWriter_In s"
  by (simp add: collect_trace_def split: prod.splits)





lemma batch_step:
  "accepted im a s t \<Longrightarrow>
     process_trace im a p s t =
       flush_if_full im
         (collect_trace im a p s (count_received s t) t
            (traceutil_GetRoot im (snd (normalizeTrace im (count_received s t) t (v_world s))) t)
            (sanitize_trace im a t
               (snd (normalizeTrace im (count_received s t) t (v_world s)))))"
  by (auto simp add: process_trace_def accepted_def Let_def split: prod.splits option.splits)

lemma batch_skip:
  "\<not> accepted im a s t \<Longrightarrow>
     v_ss (process_trace im a p s t) = v_ss s \<and>
     TraceWriter_In (process_trace im a p s t) = TraceWriter_In s"
  by (auto simp add: process_trace_def accepted_def Let_def split: prod.splits option.splits)

lemma flush_if_full_bound:
  "\<not> writer_MaxPayloadSize im <s 0 \<Longrightarrow>
     \<not> writer_MaxPayloadSize im <s Size (v_ss (flush_if_full im s))"
  by (simp add: flush_if_full_def new_SampledSpans_def)

text \<open>
  Claim C9. When \<open>normalizeTrace\<close> returns an error on a trace, the loop body adds the
  number of spans of the trace to \<open>SpansReceived\<close> and to \<open>SpansDropped\<close> and goes on to the
  next trace. The batch, the stats inputs and the trace writer's channel are as before, and
  the world is the one \<open>normalizeTrace\<close> left. The result is the same for every agent and
  every payload flag: no blacklister, obfuscator, replacer, sampler or event processor has
  a part in it.
\<close>

theorem normalization_failure_drops_trace:
  assumes "t \<noteq> []"
    and "normalizeTrace im (count_received s t) t (v_world s) = (Some err, w1)"
  shows "process_trace im a p s t =
           s\<lparr>v_ts := (v_ts s)\<lparr>SpansReceived := SpansReceived (v_ts s) + of_nat (length t),
                              SpansDropped := SpansDropped (v_ts s) + of_nat (length t)\<rparr>,
             v_world := w1\<rparr>
         \<and> (\<forall>a' p'. process_trace im a' p' s t = process_trace im a p s t)"
  using assms by (simp add: process_trace_def count_received_def)

theorem normalization_failure_drops_trace_witness:
  "[1] \<noteq> ([] :: Trace)
   \<and> normalizeTrace ex_imports (count_received (initial_state (ex_payload [[1]]) [] ex_world) [1])
       [1] (v_world (initial_state (ex_payload [[1]]) [] ex_world)) =
     (Some ''empty service'', called ''normalizeTrace'' ex_world)
   \<and> process_trace ex_imports ex_agent (ex_payload [[1]])
       (initial_state (ex_payload [[1]]) [] ex_world) [1] =
     \<lparr>v_ts = ex_ts\<lparr>SpansReceived := 1, SpansDropped := 1\<rparr>, v_ss = new_SampledSpans,
      v_sinputs = [], TraceWriter_In = [], v_world = called ''normalizeTrace'' ex_world\<rparr>"
proof -
  let ?s = "initial_state (ex_payload [[1]]) [] ex_world
              :: (real, string list, unit, unit, Trace) ProcessState"
  have n: "[1] \<noteq> ([] :: Trace)"
    by simp
  have h: "normalizeTrace ex_imports (count_received ?s [1]) [1] (v_world ?s) =
             (Some ''empty service'', called ''normalizeTrace'' ex_world)"
    by (simp add: ex_defs)
  from normalization_failure_drops_trace [OF n h, of ex_agent "ex_payload [[1]]"] n h
  show ?thesis
    by (simp add: ex_defs)
qed

text \<open>
  Claim C1, as stated, fails: the blacklister is asked before the spans are obfuscated and
  tag-replaced, not after. In the run below the root of the trace, once obfuscated and
  replaced, is one the blacklister rejects; yet the trace is not counted as filtered, it
  yields a stats input, and the record of calls shows the obfuscator and the replacer
  running before the samplers.
\<close>

theorem blacklist_after_obfuscation_counterexample:
  "\<not> Blacklister_Allows ex_agent
       (sanitize_trace ex_imports ex_agent [0] (called ''normalizeTrace'' ex_world)) 0
   \<and> TracesFiltered (v_ts (process_trace ex_imports ex_agent (ex_payload [[0]])
        (initial_state (ex_payload [[0]]) [] ex_world) [0])) = 0
   \<and> length (v_sinputs (process_trace ex_imports ex_agent (ex_payload [[0]])
        (initial_state (ex_payload [[0]]) [] ex_world) [0])) = 1
   \<and> Ext (v_world (process_trace ex_imports ex_agent (ex_payload [[0]])
        (initial_state (ex_payload [[0]]) [] ex_world) [0])) =
       [''normalizeTrace'', ''Obfuscate'', ''Replace'', ''PrioritySampler'',
        ''ExceptionSampler'', ''EventProcessor'']"
  by (simp add: ex_defs run_defs)

text \<open>
  Claim C1, amended. For a trace that passes normalization, the blacklister is asked first,
  on the root as normalization left it. A trace it rejects is counted (\<open>TracesFiltered\<close> by
  one, \<open>SpansFiltered\<close> by the number of spans) and dropped there: nothing is obfuscated,
  sampled, added to the stats inputs or to the batch. A trace it allows is then obfuscated
  and truncated span by span, in the order of the trace, then tag-replaced, and only then
  prepared, sampled and collected.
\<close>

theorem blacklist_before_sanitization:
  assumes "t \<noteq> []"
    and "normalizeTrace im (count_received s t) t (v_world s) = (None, w1)"
  shows "(\<not> Blacklister_Allows a w1 (traceutil_GetRoot im w1 t) \<longrightarrow>
            process_trace im a p s t =
              s\<lparr>v_ts := (v_ts s)\<lparr>SpansReceived := SpansReceived (v_ts s) + of_nat (length t),
                                 TracesFiltered := TracesFiltered (v_ts s) + 1,
                                 SpansFiltered := SpansFiltered (v_ts s) + of_nat (length t)\<rparr>,
                v_world := w1\<rparr>) \<and>
         (Blacklister_Allows a w1 (traceutil_GetRoot im w1 t) \<longrightarrow>
            process_trace im a p s t =
              flush_if_full im
                (collect_trace im a p s (count_received s t) t (traceutil_GetRoot im w1 t)
                   (Replacer_Replace a t
                      (foldl (\<lambda>w sp. Truncate im sp (obfuscator_Obfuscate a sp w)) w1 t))))"
  using assms
  by (simp add: process_trace_def count_received_def sanitize_trace_def obfuscate_spans_foldl
      Let_def)

theorem blacklist_before_sanitization_witness:
  "process_trace ex_imports ex_agent (ex_payload [[2]])
       (initial_state (ex_payload [[2]]) [] ex_world) [2] =
     \<lparr>v_ts = ex_ts\<lparr>SpansReceived := 1, TracesFiltered := 1, SpansFiltered := 1\<rparr>,
      v_ss = new_SampledSpans, v_sinputs = [], TraceWriter_In = [],
      v_world = called ''normalizeTrace'' ex_world\<rparr>
   \<and> Ext (v_world (process_trace ex_imports ex_agent (ex_payload [[5, 0]])
        (initial_state (ex_payload [[5, 0]]) [] ex_world) [5, 0])) =
       [''normalizeTrace'', ''Obfuscate'', ''Obfuscate'', ''Replace'', ''PrioritySampler'',
        ''ExceptionSampler'', ''EventProcessor'']"
proof -
  let ?s2 = "initial_state (ex_payload [[2]]) [] ex_world
               :: (real, string list, unit, unit, Trace) ProcessState"
  let ?s0 = "initial_state (ex_payload [[5, 0]]) [] ex_world
               :: (real, string list, unit, unit, Trace) ProcessState"
  let ?w1 = "called ''normalizeTrace'' ex_world"
  have n2: "[2] \<noteq> ([] :: Trace)" and n0: "[5, 0] \<noteq> ([] :: Trace)"
    by simp_all
  have h2: "normalizeTrace ex_imports (count_received ?s2 [2]) [2] (v_world ?s2) = (None, ?w1)"
    and h0: "normalizeTrace ex_imports (count_received ?s0 [5, 0]) [5, 0] (v_world ?s0) =
               (None, ?w1)"
    by (simp_all add: ex_defs)
  have b2: "\<not> Blacklister_Allows ex_agent ?w1 (traceutil_GetRoot ex_imports ?w1 [2])"
    and b0: "Blacklister_Allows ex_agent ?w1 (traceutil_GetRoot ex_imports ?w1 [5, 0])"
    by (simp_all add: ex_defs)
  from blacklist_before_sanitization [OF n2 h2, of ex_agent "ex_payload [[2]]"] b2
  have one: "process_trace ex_imports ex_agent (ex_payload [[2]]) ?s2 [2] =
     \<lparr>v_ts = ex_ts\<lparr>SpansReceived := 1, TracesFiltered := 1, SpansFiltered := 1\<rparr>,
      v_ss = new_SampledSpans, v_sinputs = [], TraceWriter_In = [],
      v_world = called ''normalizeTrace'' ex_world\<rparr>"
    by (simp add: ex_defs)
  from blacklist_before_sanitization [OF n0 h0, of ex_agent "ex_payload [[5, 0]]"] b0
  have two: "Ext (v_world (process_trace ex_imports ex_agent (ex_payload [[5, 0]]) ?s0 [5, 0])) =
       [''normalizeTrace'', ''Obfuscate'', ''Obfuscate'', ''Replace'', ''PrioritySampler'',
        ''ExceptionSampler'', ''EventProcessor'']"
    by (simp add: ex_defs flush_if_full_def collect_trace_def prepare_trace_def
        set_root_tags_def append_batch_def sample_def select_stat_def runSamplers_def
        samplePriorityTrace_def Let_def)
  from one two show ?thesis by simp
qed



text \<open>
  Claim C7. After an accepted trace has been collected, the batch is sent to the trace
  writer and replaced by a new one exactly when its size is strictly above
  \<open>writer.MaxPayloadSize\<close> (a signed comparison); a trace that is not accepted leaves the
  batch and the channel alone. So, the ceiling not being negative, the batch held after any
  trace is never above the ceiling. When all traces of a payload have been handled, the
  batch is sent if and only if its size is positive. \<open>Process\<close> returns the counters, the
  channels and the world, and starts every payload from a new batch: no batch outlives a
  payload.
\<close>

theorem batch_flushed_over_ceiling:
  "(accepted im a s t \<longrightarrow>
      (let w1 = snd (normalizeTrace im (count_received s t) t (v_world s));
           c = collect_trace im a p s (count_received s t) t (traceutil_GetRoot im w1 t)
                 (sanitize_trace im a t w1)
       in process_trace im a p s t =
            (if writer_MaxPayloadSize im <s Size (v_ss c)
             then c\<lparr>TraceWriter_In := TraceWriter_In s @ [v_ss c], v_ss := new_SampledSpans\<rparr>
             else c))) \<and>
   (\<not> accepted im a s t \<longrightarrow>
      v_ss (process_trace im a p s t) = v_ss s \<and>
      TraceWriter_In (process_trace im a p s t) = TraceWriter_In s) \<and>
   (\<not> writer_MaxPayloadSize im <s 0 \<and> \<not> writer_MaxPayloadSize im <s Size (v_ss s) \<longrightarrow>
      \<not> writer_MaxPayloadSize im <s Size (v_ss (process_trace im a p s t))) \<and>
   (Payload.Traces p \<noteq> [] \<longrightarrow>
      (let s' = foldl (process_trace im a p) (initial_state p tw_in w) (Payload.Traces p)
       in fst (snd (Process im a p tw_in conc_in w)) =
            (if 0 <s Size (v_ss s') then TraceWriter_In s' @ [v_ss s'] else TraceWriter_In s')))"
proof (intro conjI impI)
  assume "accepted im a s t"
  then show "let w1 = snd (normalizeTrace im (count_received s t) t (v_world s));
           c = collect_trace im a p s (count_received s t) t (traceutil_GetRoot im w1 t)
                 (sanitize_trace im a t w1)
       in process_trace im a p s t =
            (if writer_MaxPayloadSize im <s Size (v_ss c)
             then c\<lparr>TraceWriter_In := TraceWriter_In s @ [v_ss c], v_ss := new_SampledSpans\<rparr>
             else c)"
    by (simp add: batch_step Let_def flush_if_full_def collect_trace_channel)
next
  assume "\<not> accepted im a s t"
  then show "v_ss (process_trace im a p s t) = v_ss s"
    and "TraceWriter_In (process_trace im a p s t) = TraceWriter_In s"
    by (simp_all add: batch_skip)
next
  assume h: "\<not> writer_MaxPayloadSize im <s 0 \<and> \<not> writer_MaxPayloadSize im <s Size (v_ss s)"
  show "\<not> writer_MaxPayloadSize im <s Size (v_ss (process_trace im a p s t))"
  proof (cases "accepted im a s t")
    case True
    then show ?thesis
      using h by (simp add: batch_step flush_if_full_bound)
  next
    case False
    then show ?thesis
      using h by (simp add: batch_skip)
  qed
next
  assume "Payload.Traces p \<noteq> []"
  then show "let s' = foldl (process_trace im a p) (initial_state p tw_in w) (Payload.Traces p)
       in fst (snd (Process im a p tw_in conc_in w)) =
            (if 0 <s Size (v_ss s') then TraceWriter_In s' @ [v_ss s'] else TraceWriter_In s')"
    by (simp add: Process_def Let_def)
qed

theorem batch_flushed_over_ceiling_witness:
  "accepted ex_imports ex_agent (initial_state (ex_payload [[5, 0], [4]]) [] ex_world) [5, 0]
   \<and> TraceWriter_In (process_trace ex_imports ex_agent (ex_payload [[5, 0], [4]])
        (initial_state (ex_payload [[5, 0], [4]]) [] ex_world) [5, 0]) =
       [\<lparr>SampledSpans.Traces = [[5, 0]], Events = [0], Size = 30, SpanCount = 2\<rparr>]
   \<and> v_ss (process_trace ex_imports ex_agent (ex_payload [[5, 0], [4]])
        (initial_state (ex_payload [[5, 0], [4]]) [] ex_world) [5, 0]) = new_SampledSpans
   \<and> \<not> accepted ex_imports ex_agent (initial_state (ex_payload [[5, 0], [4]]) [] ex_world) [1]
   \<and> TraceWriter_In (process_trace ex_imports ex_agent (ex_payload [[5, 0], [4]])
        (initial_state (ex_payload [[5, 0], [4]]) [] ex_world) [1]) = []
   \<and> \<not> writer_MaxPayloadSize ex_imports <s 0
   \<and> \<not> writer_MaxPayloadSize ex_imports <s
         Size (v_ss (process_trace ex_imports ex_agent (ex_payload [[5, 0], [4]])
           (initial_state (ex_payload [[5, 0], [4]]) [] ex_world) [1]))
   \<and> Payload.Traces (ex_payload [[5, 0], [4]]) \<noteq> []
   \<and> fst (snd (Process ex_imports ex_agent (ex_payload [[5, 0], [4]]) [] [] ex_world)) =
       [\<lparr>SampledSpans.Traces = [[5, 0]], Events = [0], Size = 30, SpanCount = 2\<rparr>,
        \<lparr>SampledSpans.Traces = [[4]], Events = [4], Size = 20, SpanCount = 1\<rparr>]"
proof -
  let ?p = "ex_payload [[5, 0], [4]]"
  let ?s = "initial_state ?p [] ex_world :: (real, string list, unit, unit, Trace) ProcessState"
  let ?b30 = "\<lparr>SampledSpans.Traces = [[5, 0]], Events = [0], Size = 30, SpanCount = 2\<rparr>
                :: Trace SampledSpans"
  have a: "accepted ex_imports ex_agent ?s [5, 0]"
    and a1: "\<not> accepted ex_imports ex_agent ?s [1]"
    by (simp_all add: ex_defs accepted_def)
  have m: "\<not> writer_MaxPayloadSize ex_imports <s 0"
    by (simp add: ex_imports_def ex_ceiling_zero)
  have ne: "Payload.Traces ?p \<noteq> []"
    by (simp add: ex_payload_def)
  have c: "v_ss (collect_trace ex_imports ex_agent ?p ?s (count_received ?s [5, 0]) [5, 0]
             (traceutil_GetRoot ex_imports
                (snd (normalizeTrace ex_imports (count_received ?s [5, 0]) [5, 0] (v_world ?s)))
                [5, 0])
             (sanitize_trace ex_imports ex_agent [5, 0]
                (snd (normalizeTrace ex_imports (count_received ?s [5, 0]) [5, 0]
                   (v_world ?s))))) = ?b30"
    by (simp add: ex_defs run_defs)
  have big: "writer_MaxPayloadSize ex_imports <s Size ?b30"
    by (simp add: ex_imports_def)
  have tw: "TraceWriter_In ?s = []"
    by (simp add: initial_state_def)
  have fin: "foldl (process_trace ex_imports ex_agent ?p) ?s (Payload.Traces ?p) =
               process_trace ex_imports ex_agent ?p
                 (process_trace ex_imports ex_agent ?p ?s [5, 0]) [4]"
    by (simp add: ex_payload_def)
  note inst = batch_flushed_over_ceiling [of ex_imports ex_agent ?s "[5, 0]" ?p "[]" ex_world "[]"]
  note inst1 = batch_flushed_over_ceiling [of ex_imports ex_agent ?s "[1]" ?p "[]" ex_world "[]"]
  from inst a c big tw
  have one: "TraceWriter_In (process_trace ex_imports ex_agent ?p ?s [5, 0]) = [?b30]"
    and two: "v_ss (process_trace ex_imports ex_agent ?p ?s [5, 0]) = new_SampledSpans"
    by (simp_all add: Let_def)
  from inst1 a1 tw
  have three: "TraceWriter_In (process_trace ex_imports ex_agent ?p ?s [1]) = []"
    by simp
  have m0: "\<not> writer_MaxPayloadSize ex_imports <s Size (v_ss ?s)"
    by (simp add: ex_imports_def initial_state_def new_SampledSpans_def ex_ceiling_zero)
  from inst1 m m0
  have inv: "\<not> writer_MaxPayloadSize ex_imports <s
               Size (v_ss (process_trace ex_imports ex_agent ?p ?s [1]))"
    by blast
  have st: "process_trace ex_imports ex_agent ?p ?s [5, 0] =
              \<lparr>v_ts = v_ts (process_trace ex_imports ex_agent ?p ?s [5, 0]),
               v_ss = new_SampledSpans,
               v_sinputs = v_sinputs (process_trace ex_imports ex_agent ?p ?s [5, 0]),
               TraceWriter_In = [?b30],
               v_world = v_world (process_trace ex_imports ex_agent ?p ?s [5, 0])\<rparr>"
    using one two by (cases "process_trace ex_imports ex_agent ?p ?s [5, 0]") simp
  have last: "TraceWriter_In (process_trace ex_imports ex_agent ?p
                 (process_trace ex_imports ex_agent ?p ?s [5, 0]) [4]) = [?b30]
              \<and> v_ss (process_trace ex_imports ex_agent ?p
                 (process_trace ex_imports ex_agent ?p ?s [5, 0]) [4]) =
                \<lparr>SampledSpans.Traces = [[4]], Events = [4], Size = 20, SpanCount = 1\<rparr>"
    by (simp add: ex_defs run_defs)
  from inst ne fin last
  have four: "fst (snd (Process ex_imports ex_agent ?p [] [] ex_world)) =
       [?b30, \<lparr>SampledSpans.Traces = [[4]], Events = [4], Size = 20, SpanCount = 1\<rparr>]"
    by (simp add: Let_def word_sless_alt)
  from a one two a1 three m inv ne four show ?thesis
    by simp
qed

section \<open>Properties of ProcessStats\<close>

text \<open>
  \<open>ProcessStats\<close> appends one bucket for every group of the client payload, in the order of
  the two loops; a property that the bucket of a group has for every content of \<open>buf\<close>
  holds of the bucket found at the group's position in the outgoing payload.
\<close>

lemma inner_groups:
  assumes "\<And>buf b0. P grp b0 (fst (group_bucket si a env version lang grp buf b0))"
  shows "\<exists>bks buf'.
           foldl (process_stats_group si a env version lang grp) (out_Stats, buf) bs =
             (out_Stats @ bks, buf') \<and>
           list_all2 (P grp) bs bks"
proof (induction bs arbitrary: out_Stats buf)
  case Nil
  then show ?case by simp
next
  case (Cons b0 bs)
  obtain newb buf1 where g: "group_bucket si a env version lang grp buf b0 = (newb, buf1)"
    by (cases "group_bucket si a env version lang grp buf b0")
  from Cons.IH [of "out_Stats @ [newb]" buf1]
  obtain bks buf' where
    f: "foldl (process_stats_group si a env version lang grp) (out_Stats @ [newb], buf1) bs =
          ((out_Stats @ [newb]) @ bks, buf')"
    and l: "list_all2 (P grp) bs bks"
    by blast
  have p: "P grp b0 newb"
    using assms [of b0 buf] g by simp
  have step: "process_stats_group si a env version lang grp (out_Stats, buf) b0 =
                (out_Stats @ [newb], buf1)"
    using g by (simp add: process_stats_group_def)
  have "foldl (process_stats_group si a env version lang grp) (out_Stats, buf) (b0 # bs) =
          (out_Stats @ (newb # bks), buf')"
    using f step by simp
  moreover have "list_all2 (P grp) (b0 # bs) (newb # bks)"
    using l p by simp
  ultimately show ?case
    by blast
qed

lemma outer_groups:
  assumes "\<And>grp buf b0. P grp b0 (fst (group_bucket si a env version lang grp buf b0))"
  shows "\<exists>bks buf'.
           foldl (\<lambda>acc grp. foldl (process_stats_group si a env version lang grp) acc
                    (ClientStatsBucket.Stats grp)) (out_Stats, buf) grps =
             (out_Stats @ bks, buf') \<and>
           list_all2 (\<lambda>(grp, b0). P grp b0)
             (concat (map (\<lambda>grp. map (Pair grp) (ClientStatsBucket.Stats grp)) grps)) bks"
proof (induction grps arbitrary: out_Stats buf)
  case Nil
  then show ?case by simp
next
  case (Cons grp grps)
  from inner_groups [of P grp si a env version lang out_Stats buf "ClientStatsBucket.Stats grp"]
    assms
  obtain bks1 buf1 where
    i: "foldl (process_stats_group si a env version lang grp) (out_Stats, buf)
          (ClientStatsBucket.Stats grp) = (out_Stats @ bks1, buf1)"
    and l1: "list_all2 (P grp) (ClientStatsBucket.Stats grp) bks1"
    by blast
  from Cons.IH [of "out_Stats @ bks1" buf1]
  obtain bks2 buf2 where
    o: "foldl (\<lambda>acc grp. foldl (process_stats_group si a env version lang grp) acc
               (ClientStatsBucket.Stats grp)) (out_Stats @ bks1, buf1) grps =
          ((out_Stats @ bks1) @ bks2, buf2)"
    and l2: "list_all2 (\<lambda>(grp, b0). P grp b0)
               (concat (map (\<lambda>grp. map (Pair grp) (ClientStatsBucket.Stats grp)) grps)) bks2"
    by blast
  have l1': "list_all2 (\<lambda>(grp, b0). P grp b0) (map (Pair grp) (ClientStatsBucket.Stats grp)) bks1"
    using l1 by (simp add: list_all2_map1)
  have "foldl (\<lambda>acc grp. foldl (process_stats_group si a env version lang grp) acc
                 (ClientStatsBucket.Stats grp)) (out_Stats, buf) (grp # grps) =
          (out_Stats @ (bks1 @ bks2), buf2)"
    using i o by simp
  moreover have "list_all2 (\<lambda>(grp, b0). P grp b0)
          (concat (map (\<lambda>grp. map (Pair grp) (ClientStatsBucket.Stats grp)) (grp # grps)))
          (bks1 @ bks2)"
    using l1' l2 by (simp add: list_all2_appendI)
  ultimately show ?case
    by blast
qed

lemma ProcessStats_buckets:
  assumes "\<And>grp buf b0.
             P grp b0 (fst (group_bucket si a (stats_env si a inp) (Version inp) lang grp buf b0))"
  shows "list_all2 (\<lambda>(grp, b0). P grp b0) (payload_groups inp)
           (StatsPayload.Stats (last (ProcessStats si a inp lang OutStats)))"
  using outer_groups [of P si a "stats_env si a inp" "Version inp" lang "[]" "[]"
      "ClientStatsPayload.Stats inp"] assms
  by (auto simp add: ProcessStats_def payload_groups_def Let_def)


lemma group_bucket_three_counts:
  assumes "\<forall>name grain.
             distinct [stats_GrainKey si name (stats_HITS si) grain,
                       stats_GrainKey si name (stats_ERRORS si) grain,
                       stats_GrainKey si name (stats_DURATION si) grain]"
  shows "has_three_counts si env version (sanitize_group si a lang b0)
           (Hits (sanitize_group si a lang b0)) (Errors (sanitize_group si a lang b0))
           (ClientGroupedStats.Duration (sanitize_group si a lang b0))
           (fst (group_bucket si a env version lang grp buf b0))"
proof -
  let ?b = "sanitize_group si a lang b0"
  obtain grain tagset buf1 where
    g: "stats_AssembleGrain si buf env (ClientGroupedStats.Resource ?b)
          (ClientGroupedStats.Service ?b) (stats_tags version ?b) = ((grain, tagset), buf1)"
    by (cases "stats_AssembleGrain si buf env (ClientGroupedStats.Resource ?b)
          (ClientGroupedStats.Service ?b) (stats_tags version ?b)") auto
  let ?k1 = "stats_GrainKey si (ClientGroupedStats.Name ?b) (stats_HITS si) grain"
  let ?k2 = "stats_GrainKey si (ClientGroupedStats.Name ?b) (stats_ERRORS si) grain"
  let ?k3 = "stats_GrainKey si (ClientGroupedStats.Name ?b) (stats_DURATION si) grain"
  have d: "?k1 \<noteq> ?k2" "?k1 \<noteq> ?k3" "?k2 \<noteq> ?k3"
    using assms by auto
  then have c: "card {?k1, ?k2, ?k3} = 3"
    by simp
  show ?thesis
    unfolding has_three_counts_def
    by (rule exI [of _ buf])
      (use g d c in \<open>auto simp add: group_bucket_def is_count_def Let_def\<close>)
qed

lemma Itoa_examples: "Itoa 0 = ''0''" "Itoa 200 = ''200''" "Itoa 404 = ''404''"
  by (simp_all add: Itoa.simps digit_def)

lemmas ex_stats_defs = ex_stats_imports_def ex_agent_def ex_group_def ex_client_bucket_def
  ex_client_payload_def sanitize_group_def stats_env_def stats_tags_def payload_groups_def

lemma ex_keys_distinct:
  "\<forall>name grain.
     distinct [stats_GrainKey ex_stats_imports name (stats_HITS ex_stats_imports) grain,
               stats_GrainKey ex_stats_imports name (stats_ERRORS ex_stats_imports) grain,
               stats_GrainKey ex_stats_imports name (stats_DURATION ex_stats_imports) grain]"
  by (simp add: ex_stats_imports_def)

lemma ex_sanitize_keeps:
  "\<forall>b0. Hits (sanitize_group ex_stats_imports ex_agent ''go'' b0) = Hits b0 \<and>
        Errors (sanitize_group ex_stats_imports ex_agent ''go'' b0) = Errors b0 \<and>
        ClientGroupedStats.Duration (sanitize_group ex_stats_imports ex_agent ''go'' b0) =
          ClientGroupedStats.Duration b0"
  by (simp add: ex_stats_defs)

text \<open>
  Claim C6. Let the keys of the three measures be distinct for each name and grain, and let
  normalization, obfuscation and tag replacement leave the three numbers of a group as they
  are. Then for every group of the client payload with \<open>Hits = h\<close>, \<open>Errors = e\<close> and
  \<open>Duration = d\<close>, the bucket \<open>ProcessStats\<close> produces for it holds exactly three counts:
  under the keys built from the (sanitized) name, the measures \<open>HITS\<close>, \<open>ERRORS\<close> and
  \<open>DURATION\<close> and one and the same grain, assembled from the environment of the payload,
  the resource, the service and the tags of the group, with the values \<open>h\<close>, \<open>e\<close> and \<open>d\<close>
  converted to \<open>float64\<close>.
\<close>

theorem client_stats_three_counts:
  assumes "\<forall>name grain.
             distinct [stats_GrainKey si name (stats_HITS si) grain,
                       stats_GrainKey si name (stats_ERRORS si) grain,
                       stats_GrainKey si name (stats_DURATION si) grain]"
    and "\<forall>b0. Hits (sanitize_group si a lang b0) = Hits b0 \<and>
               Errors (sanitize_group si a lang b0) = Errors b0 \<and>
               ClientGroupedStats.Duration (sanitize_group si a lang b0) =
                 ClientGroupedStats.Duration b0"
  shows "list_all2
           (\<lambda>(grp, b0) bk.
              has_three_counts si (stats_env si a inp) (Version inp) (sanitize_group si a lang b0)
                (Hits b0) (Errors b0) (ClientGroupedStats.Duration b0) bk)
           (payload_groups inp)
           (StatsPayload.Stats (last (ProcessStats si a inp lang OutStats)))"
proof (rule ProcessStats_buckets)
  fix grp :: ClientStatsBucket and buf b0
  from assms(2) have k: "Hits b0 = Hits (sanitize_group si a lang b0)"
    "Errors b0 = Errors (sanitize_group si a lang b0)"
    "ClientGroupedStats.Duration b0 = ClientGroupedStats.Duration (sanitize_group si a lang b0)"
    by simp_all
  show "has_three_counts si (stats_env si a inp) (Version inp) (sanitize_group si a lang b0)
          (Hits b0) (Errors b0) (ClientGroupedStats.Duration b0)
          (fst (group_bucket si a (stats_env si a inp) (Version inp) lang grp buf b0))"
    unfolding k using assms(1) by (rule group_bucket_three_counts)
qed

theorem client_stats_three_counts_witness:
  "(\<forall>name grain.
      distinct [stats_GrainKey ex_stats_imports name (stats_HITS ex_stats_imports) grain,
                stats_GrainKey ex_stats_imports name (stats_ERRORS ex_stats_imports) grain,
                stats_GrainKey ex_stats_imports name (stats_DURATION ex_stats_imports) grain])
   \<and> (\<forall>b0. Hits (sanitize_group ex_stats_imports ex_agent ''go'' b0) = Hits b0 \<and>
           Errors (sanitize_group ex_stats_imports ex_agent ''go'' b0) = Errors b0 \<and>
           ClientGroupedStats.Duration (sanitize_group ex_stats_imports ex_agent ''go'' b0) =
             ClientGroupedStats.Duration b0)
   \<and> map (\<lambda>bk. (card (dom (Counts bk)),
                 map_option Value (Counts bk ''web.request|hits|env:prod,resource:?,service:S''),
                 map_option Value (Counts bk ''web.request|errors|env:prod,resource:?,service:S''),
                 map_option Value
                   (Counts bk ''web.request|duration|env:prod,resource:?,service:S'')))
       (StatsPayload.Stats (last (ProcessStats ex_stats_imports ex_agent ex_client_payload
          ''go'' []))) =
     [(3, Some 10, Some 2, Some 500)]"
proof -
  from client_stats_three_counts [OF ex_keys_distinct ex_sanitize_keeps,
      of ex_client_payload "[]"]
  obtain bk where
    st: "StatsPayload.Stats (last (ProcessStats ex_stats_imports ex_agent ex_client_payload
           ''go'' [])) = [bk]"
    and h: "has_three_counts ex_stats_imports
              (stats_env ex_stats_imports ex_agent ex_client_payload)
              (Version ex_client_payload)
              (sanitize_group ex_stats_imports ex_agent ''go'' ex_group)
              (Hits ex_group) (Errors ex_group) (ClientGroupedStats.Duration ex_group) bk"
    by (auto simp add: payload_groups_def ex_client_payload_def ex_client_bucket_def
        list_all2_Cons1)
  from h have "card (dom (Counts bk)) = 3"
    and "map_option Value (Counts bk ''web.request|hits|env:prod,resource:?,service:S'') =
           Some 10"
    and "map_option Value (Counts bk ''web.request|errors|env:prod,resource:?,service:S'') =
           Some 2"
    and "map_option Value (Counts bk ''web.request|duration|env:prod,resource:?,service:S'') =
           Some 500"
    by (auto simp add: has_three_counts_def is_count_def ex_stats_defs Let_def
        split: option.splits)
  with st ex_keys_distinct ex_sanitize_keeps show ?thesis
    by simp
qed




end
